theory Spec2Isabelle
  imports Complex_Main "HOL-Library.Word"
begin

section \<open>JavaScript strings\<close>

text \<open>
  A JavaScript string is a sequence of UTF-16 code units: \<^verbatim>\<open>length\<close> counts code
  units and \<^verbatim>\<open>slice\<close> cuts between them. Strings are therefore lists of 16-bit words.
\<close>

type_synonym jsstring = "16 word list"

definition ascii :: "string \<Rightarrow> jsstring" where
  "ascii s = map (\<lambda>c. of_nat (of_char c)) s"

definition ellipsis :: "16 word" where
  "ellipsis = 0x2026"

definition newline :: "16 word" where
  "newline = 0x0A"

text \<open>
  The code units that \<^verbatim>\<open>String.prototype.trim\<close> removes (white space and line
  terminators); the title field of the document schema is declared with
  \<^verbatim>\<open>trim: true\<close>, so every assignment to it goes through \<open>js_trim\<close>.
\<close>

definition is_js_space :: "16 word \<Rightarrow> bool" where
  "is_js_space c =
     (c \<in> {0x09, 0x0A, 0x0B, 0x0C, 0x0D, 0x20, 0xA0, 0x1680, 0x2028, 0x2029,
            0x202F, 0x205F, 0x3000, 0xFEFF}
      \<or> (0x2000 \<le> c \<and> c \<le> 0x200A))"

definition js_trim :: "jsstring \<Rightarrow> jsstring" where
  "js_trim s = rev (dropWhile is_js_space (rev (dropWhile is_js_space s)))"

text \<open>\<^verbatim>\<open>Array.from(new Set(xs))\<close>: the first occurrence of every element, in order.\<close>

definition array_from_set :: "'a list \<Rightarrow> 'a list" where
  "array_from_set xs = rev (remdups (rev xs))"

text \<open>\<^verbatim>\<open>xs.slice(-n)\<close>: the last \<open>n\<close> elements.\<close>

definition slice_last :: "nat \<Rightarrow> 'a list \<Rightarrow> 'a list" where
  "slice_last n xs = drop (length xs - n) xs"

section \<open>The Gemini wrappers (utils/gemini)\<close>

text \<open>
  The generative service is outside the repository. \<open>ready\<close> is \<^verbatim>\<open>Boolean(genAI)\<close>;
  each remote call is a function answering \<open>None\<close> when the call throws.
  \<open>tags_reply\<close> is the list the function holds just before its final
  \<^verbatim>\<open>.slice(0, count)\<close> (the parsed array, or the pieces of a plain-text answer).
  \<open>ranked_words\<close> is the list the local \<^verbatim>\<open>naive()\<close> helper holds before its
  \<^verbatim>\<open>.slice(0, count)\<close>: the words of the lower-cased text ranked by frequency; the
  regular expressions and the engine's property order that produce it are not modelled.
\<close>

record gemini =
  ready :: bool
  summary_reply :: "jsstring \<Rightarrow> jsstring option"
  tags_reply :: "jsstring \<Rightarrow> nat \<Rightarrow> jsstring list option"
  ranked_words :: "jsstring \<Rightarrow> jsstring list"
  embedding_reply :: "jsstring \<Rightarrow> real list option"

definition isReady :: "gemini \<Rightarrow> bool" where
  "isReady g = ready g"

definition truncated :: "jsstring \<Rightarrow> jsstring" where
  "truncated txt = (if length txt > 220 then take 200 txt @ [ellipsis] else txt)"

definition summarizeText :: "gemini \<Rightarrow> jsstring \<Rightarrow> jsstring" where
  "summarizeText g txt =
     (if \<not> isReady g then truncated txt
      else case summary_reply g txt of
             Some r \<Rightarrow> r
           | None \<Rightarrow> truncated txt)"

definition naive :: "gemini \<Rightarrow> jsstring \<Rightarrow> nat \<Rightarrow> jsstring list" where
  "naive g txt count = take count (ranked_words g txt)"

definition generateTags :: "gemini \<Rightarrow> jsstring \<Rightarrow> nat \<Rightarrow> jsstring list" where
  "generateTags g txt count =
     (if \<not> isReady g then naive g txt count
      else case tags_reply g txt count of
             Some parsed \<Rightarrow> take count parsed
           | None \<Rightarrow> naive g txt count)"

datatype failure = TypeError | ValidationError | MongoError | ApiError

fun embed_loop :: "nat \<Rightarrow> jsstring \<Rightarrow> nat list \<Rightarrow> nat list" where
  "embed_loop i [] vec = vec"
| "embed_loop i (code # rest) vec =
     embed_loop (i + 1) rest (vec[i mod 64 := (vec ! (i mod 64) + unat code) mod 1000])"

definition embedText :: "gemini \<Rightarrow> jsstring \<Rightarrow> failure + real list" where
  "embedText g txt =
     (if \<not> isReady g
      then Inr (map (\<lambda>v. real v / 1000) (embed_loop 0 txt (replicate 64 0)))
      else case embedding_reply g txt of
             Some vs \<Rightarrow> Inr vs
           | None \<Rightarrow> Inl ApiError)"

section \<open>The data model (models/Document, models/Activity)\<close>

datatype role = Admin | User

record user =
  user_id :: nat
  user_role :: role

record changes =
  ch_title :: bool
  ch_content :: bool
  ch_tags :: bool
  ch_summary :: bool

definition no_changes :: changes where
  "no_changes = \<lparr>ch_title = False, ch_content = False, ch_tags = False, ch_summary = False\<rparr>"

definition all_changes :: changes where
  "all_changes = \<lparr>ch_title = True, ch_content = True, ch_tags = True, ch_summary = True\<rparr>"

definition some_change :: "changes \<Rightarrow> bool" where
  "some_change ch = (ch_title ch \<or> ch_content ch \<or> ch_tags ch \<or> ch_summary ch)"

text \<open>The four \<^verbatim>\<open>diff\<close> paths of a version are strings with default \<^verbatim>\<open>''\<close>.\<close>

record vdiff =
  diff_title :: jsstring
  diff_content :: jsstring
  diff_tags :: jsstring
  diff_summary :: jsstring

definition no_diff :: vdiff where
  "no_diff = \<lparr>diff_title = [], diff_content = [], diff_tags = [], diff_summary = []\<rparr>"

record version =
  versionNumber :: int
  v_title :: jsstring
  v_content :: jsstring
  v_summary :: jsstring
  v_tags :: "jsstring list"
  editedBy :: nat
  v_changes :: changes
  v_diff :: vdiff

record document =
  doc_id :: nat
  title :: jsstring
  content :: jsstring
  summary :: jsstring
  tags :: "jsstring list"
  embedding :: "real list"
  currentVersion :: int
  createdBy :: nat
  lastUpdatedBy :: "nat option"
  versions :: "version list"
  isDeleted :: bool
  updatedAt :: nat

datatype action = Created | Updated | Deleted | Version_created

record snapshot =
  s_title :: jsstring
  s_content :: jsstring
  s_summary :: jsstring
  s_tags :: "jsstring list"

record activity =
  action :: action
  a_document :: nat
  documentTitle :: jsstring
  a_versionNumber :: int
  a_user :: nat
  a_changes :: changes
  previousVersion :: "snapshot option"
  newVersion :: "snapshot option"
  createdAt :: nat

datatype logline =
    Error_logging_activity
  | Error_creating_document
  | Error_updating_document
  | Error_deleting_document
  | Error_restoring_document_version

text \<open>
  The state: the two collections and the server's console. Documents are kept in
  insertion order; activities are appended.
\<close>

record state =
  documents :: "document list"
  activities :: "activity list"
  console :: "logline list"

text \<open>
  What a request meets outside the code: the generative service, the clock, the
  identifier the driver gives a new document, which of the database calls fail, and
  the database's case-insensitive regular-expression search (\<open>regex_i pattern subject\<close>).
  \<open>method_save_fails\<close> is the \<^verbatim>\<open>this.save()\<close> inside the model's methods
  (\<^verbatim>\<open>createVersion\<close>, \<^verbatim>\<open>softDelete\<close>), \<open>save_fails\<close> the controller's own
  \<^verbatim>\<open>doc.save\<close>, \<open>activity_fails\<close> the \<^verbatim>\<open>Activity.create\<close> of
  \<^verbatim>\<open>logActivity\<close>, \<open>commit_fails\<close> the \<^verbatim>\<open>commitTransaction\<close>, and \<open>respond_fails\<close> what a
  handler still does inside its \<^verbatim>\<open>try\<close> after the commit: the
  \<^verbatim>\<open>Document.findById(...).populate(...)\<close> that reads the document back and the
  \<^verbatim>\<open>res.json\<close> that serialises it (the query can fail, and so can a getter that the
  serialisation runs).
\<close>

record env =
  genAI :: gemini
  now :: nat
  fresh_id :: nat
  save_fails :: bool
  method_save_fails :: bool
  activity_fails :: bool
  commit_fails :: bool
  respond_fails :: bool
  regex_i :: "jsstring \<Rightarrow> jsstring \<Rightarrow> bool"

text \<open>
  How a request ends when it does not succeed: one of the early answers (400, 403,
  404), the 500 of the \<^verbatim>\<open>catch\<close> block, or no answer at all. The last happens when the
  \<^verbatim>\<open>catch\<close> block is entered after \<^verbatim>\<open>commitTransaction\<close> has been called: the session
  then counts as committed, the block's own \<^verbatim>\<open>abortTransaction\<close> throws, and the
  handler's promise rejects before it prints or answers. \<open>At_commit\<close> is the commit
  itself failing, \<open>After_commit\<close> a failure of the steps that follow a successful commit.
\<close>

datatype stage = At_commit | After_commit

datatype error =
    Bad_request
  | Forbidden
  | Document_not_found
  | Version_not_found
  | Server_error failure
  | Rejected stage

subsection \<open>Saving a document\<close>

definition findById :: "nat \<Rightarrow> document list \<Rightarrow> document option" where
  "findById i docs = find (\<lambda>d. doc_id d = i) docs"

text \<open>The schema's \<^verbatim>\<open>required\<close> validators: a required string must not be empty.\<close>

definition validate :: "document \<Rightarrow> bool" where
  "validate d = (title d \<noteq> [] \<and> content d \<noteq> [])"

text \<open>The entry the \<^verbatim>\<open>pre('save')\<close> hook pushes for a new document.\<close>

definition initial_version :: "document \<Rightarrow> version" where
  "initial_version d =
     \<lparr>versionNumber = 1, v_title = title d, v_content = content d, v_summary = summary d,
      v_tags = tags d, editedBy = createdBy d, v_changes = all_changes, v_diff = no_diff\<rparr>"

definition pre_save :: "bool \<Rightarrow> document \<Rightarrow> document" where
  "pre_save isNew d = (if isNew then d\<lparr>versions := versions d @ [initial_version d]\<rparr> else d)"

text \<open>The write of an existing document replaces the one stored under its identifier.\<close>

fun replace_doc :: "document \<Rightarrow> document list \<Rightarrow> document list" where
  "replace_doc d [] = []"
| "replace_doc d (x # xs) = (if doc_id x = doc_id d then d # xs else x # replace_doc d xs)"

text \<open>
  \<^verbatim>\<open>doc.save()\<close> on the collection \<open>docs\<close> as the caller's session sees it: validation,
  then the hook, then the write. \<^verbatim>\<open>timestamps: true\<close> stamps \<open>updatedAt\<close> on an insert
  and on a save that changes something. An insert under an identifier already in use,
  and an update of a document that is not stored, are refused by the database.
\<close>

definition doc_save ::
  "bool \<Rightarrow> nat \<Rightarrow> bool \<Rightarrow> document \<Rightarrow> document list \<Rightarrow> failure + document \<times> document list" where
  "doc_save fails t isNew d docs =
     (if \<not> validate d then Inl ValidationError
      else if fails then Inl MongoError
      else let d1 = pre_save isNew d in
        case findById (doc_id d1) docs of
          None \<Rightarrow>
            if isNew then (let d2 = d1\<lparr>updatedAt := t\<rparr> in Inr (d2, docs @ [d2]))
            else Inl MongoError
        | Some stored \<Rightarrow>
            if isNew then Inl MongoError
            else if d1 = stored then Inr (d1, docs)
            else (let d2 = d1\<lparr>updatedAt := t\<rparr>
                  in Inr (d2, replace_doc d2 docs)))"

subsection \<open>createVersion and softDelete\<close>

text \<open>
  \<^verbatim>\<open>newVersion\<close> is built as an object literal without a \<^verbatim>\<open>diff\<close> property. When the
  ledger is not empty and a change flag is set, the method reaches an assignment
  \<^verbatim>\<open>newVersion.diff.title = ...\<close> (or \<^verbatim>\<open>.content\<close>, \<^verbatim>\<open>.tags\<close>, \<^verbatim>\<open>.summary\<close>) whose
  target \<^verbatim>\<open>newVersion.diff\<close> is \<^verbatim>\<open>undefined\<close>: the assignment throws a TypeError before
  anything is pushed or saved.
\<close>

definition createVersion ::
  "env \<Rightarrow> user \<Rightarrow> changes \<Rightarrow> document \<Rightarrow> document list \<Rightarrow> failure + document \<times> document list" where
  "createVersion e u ch d docs =
     (let d1 = d\<lparr>currentVersion := currentVersion d + 1, lastUpdatedBy := Some (user_id u)\<rparr>;
          newVersion' =
            \<lparr>versionNumber = currentVersion d1, v_title = title d1, v_content = content d1,
             v_summary = summary d1, v_tags = tags d1, editedBy = user_id u,
             v_changes = ch, v_diff = no_diff\<rparr>
      in if length (versions d1) > 0 \<and> some_change ch then Inl TypeError
         else let pushed = versions d1 @ [newVersion'];
                  d2 = d1\<lparr>versions := (if length pushed > 10 then slice_last 10 pushed else pushed)\<rparr>
              in doc_save (method_save_fails e) (now e) False d2 docs)"

definition softDelete ::
  "env \<Rightarrow> document \<Rightarrow> document list \<Rightarrow> failure + document \<times> document list" where
  "softDelete e d docs = doc_save (method_save_fails e) (now e) False (d\<lparr>isDeleted := True\<rparr>) docs"

text \<open>\<^verbatim>\<open>findActive\<close>, the model's query for documents that are not deleted.\<close>

definition findActive :: "document list \<Rightarrow> document list" where
  "findActive docs = filter (\<lambda>d. \<not> isDeleted d) docs"

section \<open>The document controller (controllers/document.controller)\<close>

definition canModify :: "user \<Rightarrow> document \<Rightarrow> bool" where
  "canModify u d = (user_role u = Admin \<or> createdBy d = user_id u)"

definition snapshot_of :: "document \<Rightarrow> snapshot" where
  "snapshot_of d = \<lparr>s_title = title d, s_content = content d, s_summary = summary d, s_tags = tags d\<rparr>"

definition snapshot_of_version :: "version \<Rightarrow> snapshot" where
  "snapshot_of_version v =
     \<lparr>s_title = v_title v, s_content = v_content v, s_summary = v_summary v, s_tags = v_tags v\<rparr>"

text \<open>
  \<^verbatim>\<open>logActivity\<close> calls \<^verbatim>\<open>Activity.create\<close> without the session, inside its own
  \<^verbatim>\<open>try\<close>: the record is written at once, outside the transaction, and a failure
  (of the write, or of the \<^verbatim>\<open>required\<close> validator of \<^verbatim>\<open>documentTitle\<close>) is caught and
  printed. The function always returns normally.
\<close>

definition logActivity ::
  "env \<Rightarrow> action \<Rightarrow> document \<Rightarrow> user \<Rightarrow> int option \<Rightarrow> changes \<Rightarrow>
   snapshot option \<Rightarrow> snapshot option \<Rightarrow> state \<Rightarrow> state" where
  "logActivity e act d u vn ch prev new s =
     (if activity_fails e \<or> title d = []
      then s\<lparr>console := console s @ [Error_logging_activity]\<rparr>
      else s\<lparr>activities := activities s @
             [\<lparr>action = act, a_document = doc_id d, documentTitle = title d,
               a_versionNumber = (case vn of None \<Rightarrow> currentVersion d
                                  | Some n \<Rightarrow> if n = 0 then currentVersion d else n),
               a_user = user_id u, a_changes = ch,
               previousVersion = prev, newVersion = new, createdAt = now e\<rparr>]\<rparr>)"

text \<open>The \<^verbatim>\<open>catch\<close> block of a handler, entered before the commit was tried: the
  transaction is aborted, the error printed, and the answer is status 500. Nothing the
  session wrote reaches the collection.\<close>

definition caught :: "logline \<Rightarrow> failure \<Rightarrow> state \<Rightarrow> (error + 'a) \<times> state" where
  "caught line f s = (Inl (Server_error f), s\<lparr>console := console s @ [line]\<rparr>)"

text \<open>The \<^verbatim>\<open>catch\<close> block entered once the commit was tried: \<^verbatim>\<open>abortTransaction\<close> throws,
  the handler rejects, and the state stays as it is at that point.\<close>

definition rejected :: "stage \<Rightarrow> state \<Rightarrow> (error + 'a) \<times> state" where
  "rejected st s = (Inl (Rejected st), s)"

text \<open>The end of the \<^verbatim>\<open>try\<close> block after a successful commit: the document is read back
  and sent as the answer.\<close>

definition respond :: "env \<Rightarrow> 'a \<Rightarrow> state \<Rightarrow> (error + 'a) \<times> state" where
  "respond e payload s =
     (if respond_fails e then rejected After_commit s else (Inr payload, s))"

text \<open>\<^verbatim>\<open>commitTransaction\<close>: the session's view \<open>tx\<close> of the documents becomes the collection.\<close>

definition commitTransaction :: "env \<Rightarrow> document list \<Rightarrow> state \<Rightarrow> failure + state" where
  "commitTransaction e tx s = (if commit_fails e then Inl MongoError else Inr (s\<lparr>documents := tx\<rparr>))"

subsection \<open>createDocument\<close>

definition new_document ::
  "env \<Rightarrow> user \<Rightarrow> jsstring \<Rightarrow> jsstring \<Rightarrow> jsstring \<Rightarrow> jsstring list \<Rightarrow> real list \<Rightarrow> document" where
  "new_document e u t c sm tgs emb =
     \<lparr>doc_id = fresh_id e, title = js_trim t, content = c, summary = sm, tags = tgs,
      embedding = emb, currentVersion = 1, createdBy = user_id u,
      lastUpdatedBy = Some (user_id u), versions = [], isDeleted = False, updatedAt = now e\<rparr>"

definition createDocument ::
  "env \<Rightarrow> user \<Rightarrow> jsstring option \<Rightarrow> jsstring option \<Rightarrow> jsstring list option \<Rightarrow> state \<Rightarrow>
   (error + document) \<times> state" where
  "createDocument e u title' content' tags' s =
     (case title' of None \<Rightarrow> (Inl Bad_request, s) | Some t \<Rightarrow>
      case content' of None \<Rightarrow> (Inl Bad_request, s) | Some c \<Rightarrow>
      if t = [] \<or> c = [] then (Inl Bad_request, s)
      else
        let summary' = summarizeText (genAI e) c;
            autoTags = generateTags (genAI e) (t @ [newline] @ c) 6
        in case embedText (genAI e) (t @ [newline] @ c) of
             Inl f \<Rightarrow> caught Error_creating_document f s
           | Inr embedding' \<Rightarrow>
               let doc = new_document e u t c summary'
                           (case tags' of Some ts \<Rightarrow> ts | None \<Rightarrow> autoTags) embedding'
               in case doc_save (save_fails e) (now e) True doc (documents s) of
                    Inl f \<Rightarrow> caught Error_creating_document f s
                  | Inr (doc1, tx) \<Rightarrow>
                      let s1 = logActivity e Created doc1 u None no_changes None None s
                      in case commitTransaction e tx s1 of
                           Inl f \<Rightarrow> rejected At_commit s1
                         | Inr s2 \<Rightarrow> respond e doc1 s2)"

text \<open>The tags expression of the earlier controller kept under
  \<^verbatim>\<open>src/controllers/document.controller.js\<close>:
  \<^verbatim>\<open>Array.from(new Set([...(tags || []), ...autoTags])).slice(0, 10)\<close>.\<close>

definition merged_tags :: "jsstring list option \<Rightarrow> jsstring list \<Rightarrow> jsstring list" where
  "merged_tags tags' autoTags =
     take 10 (array_from_set ((case tags' of Some ts \<Rightarrow> ts | None \<Rightarrow> []) @ autoTags))"

subsection \<open>updateDocument\<close>

text \<open>
  The handler in four steps, named after its comments. \<open>track_changes\<close> is the
  \<^verbatim>\<open>changes\<close> object (a patch field counts when it is not \<^verbatim>\<open>undefined\<close> and differs from
  the stored one; for tags the two \<^verbatim>\<open>JSON.stringify\<close> texts are compared, which for
  arrays of strings is equality of the lists, order included). \<open>apply_patch\<close> assigns the
  fields that are given. \<open>recompute_ai\<close> runs when title or content changed; the three
  calls are awaited together, and only \<open>embedText\<close> can reject. \<open>version_and_log\<close> is the
  block guarded by \<^verbatim>\<open>Object.values(changes).some(...)\<close>.
\<close>

definition track_changes ::
  "jsstring option \<Rightarrow> jsstring option \<Rightarrow> jsstring list option \<Rightarrow> document \<Rightarrow> changes" where
  "track_changes title' content' tags' doc =
     \<lparr>ch_title = (case title' of None \<Rightarrow> False | Some t \<Rightarrow> t \<noteq> title doc),
      ch_content = (case content' of None \<Rightarrow> False | Some c \<Rightarrow> c \<noteq> content doc),
      ch_tags = (case tags' of None \<Rightarrow> False | Some ts \<Rightarrow> ts \<noteq> tags doc),
      ch_summary = False\<rparr>"

definition apply_patch ::
  "jsstring option \<Rightarrow> jsstring option \<Rightarrow> jsstring list option \<Rightarrow> document \<Rightarrow> document" where
  "apply_patch title' content' tags' doc =
     (let d1 = (case title' of None \<Rightarrow> doc | Some t \<Rightarrow> doc\<lparr>title := js_trim t\<rparr>);
          d2 = (case content' of None \<Rightarrow> d1 | Some c \<Rightarrow> d1\<lparr>content := c\<rparr>)
      in case tags' of None \<Rightarrow> d2 | Some ts \<Rightarrow> d2\<lparr>tags := ts\<rparr>)"

definition recompute_ai ::
  "env \<Rightarrow> jsstring list option \<Rightarrow> changes \<Rightarrow> document \<Rightarrow> failure + changes \<times> document" where
  "recompute_ai e tags' ch doc =
     (if ch_content ch \<or> ch_title ch then
        let summary' = summarizeText (genAI e) (content doc);
            autoTags = generateTags (genAI e) (title doc @ [newline] @ content doc) 6
        in case embedText (genAI e) (title doc @ [newline] @ content doc) of
             Inl f \<Rightarrow> Inl f
           | Inr embedding' \<Rightarrow>
               let ch1 = ch\<lparr>ch_summary := (summary doc \<noteq> summary')\<rparr>;
                   d1 = doc\<lparr>summary := summary', embedding := embedding'\<rparr>
               in case tags' of
                    Some ts \<Rightarrow> Inr (ch1, d1)
                  | None \<Rightarrow>
                      let newTags = take 10 (array_from_set (tags d1 @ autoTags))
                      in Inr (ch1\<lparr>ch_tags := (ch_tags ch1 \<or> newTags \<noteq> tags d1)\<rparr>,
                              d1\<lparr>tags := newTags\<rparr>)
      else Inr (ch, doc))"

definition version_and_log ::
  "env \<Rightarrow> user \<Rightarrow> changes \<Rightarrow> snapshot \<Rightarrow> document \<Rightarrow> document list \<Rightarrow> state \<Rightarrow>
   failure + document \<times> document list \<times> state" where
  "version_and_log e u ch previousState doc tx s =
     (if some_change ch then
        case createVersion e u ch doc tx of
          Inl f \<Rightarrow> Inl f
        | Inr (d1, tx1) \<Rightarrow>
            Inr (d1, tx1,
                 logActivity e Updated d1 u (Some (currentVersion d1)) ch
                   (Some previousState) (Some (snapshot_of d1)) s)
      else Inr (doc, tx, s))"

definition updateDocument ::
  "env \<Rightarrow> user \<Rightarrow> nat \<Rightarrow> jsstring option \<Rightarrow> jsstring option \<Rightarrow> jsstring list option \<Rightarrow> state \<Rightarrow>
   (error + document) \<times> state" where
  "updateDocument e u i title' content' tags' s =
     (case findById i (documents s) of
        None \<Rightarrow> (Inl Document_not_found, s)
      | Some doc \<Rightarrow>
          if \<not> canModify u doc then (Inl Forbidden, s)
          else
            case recompute_ai e tags' (track_changes title' content' tags' doc)
                   (apply_patch title' content' tags' doc) of
              Inl f \<Rightarrow> caught Error_updating_document f s
            | Inr (ch, d1) \<Rightarrow>
                case version_and_log e u ch (snapshot_of doc) d1 (documents s) s of
                  Inl f \<Rightarrow> caught Error_updating_document f s
                | Inr (d2, tx, s1) \<Rightarrow>
                    case doc_save (save_fails e) (now e) False
                           (d2\<lparr>lastUpdatedBy := Some (user_id u)\<rparr>) tx of
                      Inl f \<Rightarrow> caught Error_updating_document f s1
                    | Inr (d3, tx1) \<Rightarrow>
                        case commitTransaction e tx1 s1 of
                          Inl f \<Rightarrow> rejected At_commit s1
                        | Inr s2 \<Rightarrow> respond e d3 s2)"

subsection \<open>deleteDocument, restoreVersion, forceTags\<close>

text \<open>After its commit \<open>deleteDocument\<close> only sends a fixed message; it reads nothing back.\<close>

definition deleteDocument :: "env \<Rightarrow> user \<Rightarrow> nat \<Rightarrow> state \<Rightarrow> (error + unit) \<times> state" where
  "deleteDocument e u i s =
     (case findById i (documents s) of
        None \<Rightarrow> (Inl Document_not_found, s)
      | Some doc \<Rightarrow>
          if \<not> canModify u doc then (Inl Forbidden, s)
          else
            let s1 = logActivity e Deleted doc u None no_changes None None s
            in case softDelete e doc (documents s) of
                 Inl f \<Rightarrow> caught Error_deleting_document f s1
               | Inr (d1, tx) \<Rightarrow>
                   case commitTransaction e tx s1 of
                     Inl f \<Rightarrow> rejected At_commit s1
                   | Inr s2 \<Rightarrow> (Inr (), s2))"

text \<open>
  The route parameter goes through \<^verbatim>\<open>parseInt\<close>; \<open>vn\<close> is its result, \<open>None\<close> for NaN,
  which no version number equals.
\<close>

definition find_version :: "int option \<Rightarrow> version list \<Rightarrow> version option" where
  "find_version vn vs = find (\<lambda>v. Some (versionNumber v) = vn) vs"

definition restore_fields :: "user \<Rightarrow> version \<Rightarrow> document \<Rightarrow> document" where
  "restore_fields u v doc =
     doc\<lparr>title := js_trim (v_title v), content := v_content v, summary := v_summary v,
         tags := v_tags v, lastUpdatedBy := Some (user_id u)\<rparr>"

definition restoreVersion ::
  "env \<Rightarrow> user \<Rightarrow> nat \<Rightarrow> int option \<Rightarrow> state \<Rightarrow> (error + document) \<times> state" where
  "restoreVersion e u i vn s =
     (case findById i (documents s) of
        None \<Rightarrow> (Inl Document_not_found, s)
      | Some doc \<Rightarrow>
          if \<not> canModify u doc then (Inl Forbidden, s)
          else
            case find_version vn (versions doc) of
              None \<Rightarrow> (Inl Version_not_found, s)
            | Some versionToRestore \<Rightarrow>
                case createVersion e u all_changes doc (documents s) of
                  Inl f \<Rightarrow> caught Error_restoring_document_version f s
                | Inr (d1, tx) \<Rightarrow>
                    case doc_save (save_fails e) (now e) False
                           (restore_fields u versionToRestore d1) tx of
                      Inl f \<Rightarrow> caught Error_restoring_document_version f s
                    | Inr (d2, tx1) \<Rightarrow>
                        let s1 = logActivity e Version_created d2 u (Some (currentVersion d2))
                                   all_changes (Some (snapshot_of d2))
                                   (Some (snapshot_of_version versionToRestore)) s
                        in case commitTransaction e tx1 s1 of
                             Inl f \<Rightarrow> rejected At_commit s1
                           | Inr s2 \<Rightarrow> respond e d2 s2)"

text \<open>\<^verbatim>\<open>forceTags\<close> opens no transaction: its \<^verbatim>\<open>doc.save()\<close> writes at once, and its
  \<^verbatim>\<open>catch\<close> prints nothing.\<close>

definition forceTags :: "env \<Rightarrow> user \<Rightarrow> nat \<Rightarrow> state \<Rightarrow> (error + jsstring list) \<times> state" where
  "forceTags e u i s =
     (case findById i (documents s) of
        None \<Rightarrow> (Inl Document_not_found, s)
      | Some doc \<Rightarrow>
          if \<not> canModify u doc then (Inl Forbidden, s)
          else
            let newTags = generateTags (genAI e) (title doc @ [newline] @ content doc) 6;
                d1 = doc\<lparr>tags := take 10 (array_from_set (tags doc @ newTags))\<rparr>
            in case doc_save (save_fails e) (now e) False d1 (documents s) of
                 Inl f \<Rightarrow> (Inl (Server_error f), s)
               | Inr (d2, docs) \<Rightarrow> (Inr (tags d2), s\<lparr>documents := docs\<rparr>))"

subsection \<open>Reads: getDocuments, getDocumentById, activityFeed\<close>

text \<open>
  The query string of the listing. \<open>q_mine\<close> is \<^verbatim>\<open>mine === 'true'\<close>; an absent or empty
  parameter is falsy; \<open>q_limit\<close> and \<open>q_page\<close> are \<^verbatim>\<open>Number(limit)\<close> and
  \<^verbatim>\<open>Number(page)\<close>, 20 and 1 when absent.
\<close>

record query =
  q_mine :: bool
  q_tag :: "jsstring option"
  q_tags :: "jsstring option"
  q_search :: "jsstring option"
  q_limit :: nat
  q_page :: nat

definition default_query :: query where
  "default_query =
     \<lparr>q_mine = False, q_tag = None, q_tags = None, q_search = None, q_limit = 20, q_page = 1\<rparr>"

definition truthy :: "jsstring option \<Rightarrow> jsstring option" where
  "truthy x = (case x of Some (c # cs) \<Rightarrow> Some (c # cs) | _ \<Rightarrow> None)"

fun split_on :: "'a \<Rightarrow> 'a list \<Rightarrow> 'a list list" where
  "split_on c [] = [[]]"
| "split_on c (x # xs) =
     (if x = c then [] # split_on c xs
      else case split_on c xs of
             w # ws \<Rightarrow> (x # w) # ws
           | [] \<Rightarrow> [[x]])"

definition comma :: "16 word" where
  "comma = 0x2C"

text \<open>The filter object built from the query. It never mentions \<^verbatim>\<open>isDeleted\<close>.\<close>

definition matches :: "env \<Rightarrow> user \<Rightarrow> query \<Rightarrow> document \<Rightarrow> bool" where
  "matches e u q d =
     ((if q_mine q then createdBy d = user_id u else True)
      \<and> (case truthy (q_tags q) of
            Some ts \<Rightarrow> list_ex (\<lambda>t. t \<in> set (split_on comma ts)) (tags d)
          | None \<Rightarrow> (case truthy (q_tag q) of
                       Some t \<Rightarrow> t \<in> set (tags d)
                     | None \<Rightarrow> True))
      \<and> (case truthy (q_search q) of
            Some r \<Rightarrow> regex_i e r (title d) \<or> regex_i e r (content d) \<or> list_ex (regex_i e r) (tags d)
          | None \<Rightarrow> True))"

text \<open>
  \<^verbatim>\<open>Document.find(filter).sort({updatedAt: -1}).limit(l).skip((p - 1) * l)\<close>: the
  database skips before it limits, takes a limit of 0 as no limit, and refuses a
  negative skip.
\<close>

definition getDocuments :: "env \<Rightarrow> user \<Rightarrow> query \<Rightarrow> state \<Rightarrow> error + document list" where
  "getDocuments e u q s =
     (if q_page q = 0 \<and> q_limit q > 0 then Inl (Server_error MongoError)
      else
        let found = sort_key (\<lambda>d. - int (updatedAt d)) (filter (matches e u q) (documents s));
            skipped = drop ((q_page q - 1) * q_limit q) found
        in Inr (if q_limit q = 0 then skipped else take (q_limit q) skipped))"

definition getDocumentById :: "nat \<Rightarrow> state \<Rightarrow> error + document" where
  "getDocumentById i s =
     (case findById i (documents s) of None \<Rightarrow> Inl Document_not_found | Some doc \<Rightarrow> Inr doc)"

text \<open>\<^verbatim>\<open>activityFeed\<close>: the page, the total and \<^verbatim>\<open>hasMore\<close>.\<close>

definition activityFeed :: "nat \<Rightarrow> nat \<Rightarrow> state \<Rightarrow> activity list \<times> nat \<times> bool" where
  "activityFeed limit skip s =
     (let sorted = sort_key (\<lambda>a. - int (createdAt a)) (activities s);
          page = (if limit = 0 then drop skip sorted else take limit (drop skip sorted))
      in (page, length (activities s), skip + length page < length (activities s)))"

section \<open>The size cap on tags\<close>

text \<open>The data model's invariant on tags: every stored document holds at most 10.\<close>

definition capped :: "document \<Rightarrow> bool" where
  "capped d = (length (tags d) \<le> 10)"


section \<open>Example inputs\<close>

text \<open>
  A service whose key is set: the summary call throws (so the truncation is used), the
  tag prompt answers one tag, the embedding call answers an empty vector.
\<close>

definition flaky :: gemini where
  "flaky = \<lparr>ready = True, summary_reply = (\<lambda>_. None),
            tags_reply = (\<lambda>_ _. Some [ascii ''ai'']),
            ranked_words = (\<lambda>_. []), embedding_reply = (\<lambda>_. Some [])\<rparr>"

definition offline :: gemini where
  "offline = \<lparr>ready = False, summary_reply = (\<lambda>_. None), tags_reply = (\<lambda>_ _. None),
              ranked_words = (\<lambda>_. []), embedding_reply = (\<lambda>_. None)\<rparr>"

definition env0 :: env where
  "env0 = \<lparr>genAI = flaky, now = 5, fresh_id = 1, save_fails = False,
           method_save_fails = False, activity_fails = False, commit_fails = False,
           respond_fails = False, regex_i = (\<lambda>_ _. False)\<rparr>"

definition alice :: user where
  "alice = \<lparr>user_id = 7, user_role = User\<rparr>"

definition empty_state :: state where
  "empty_state = \<lparr>documents = [], activities = [], console = []\<rparr>"

text \<open>The document that \<open>createDocument env0 alice\<close> stores for title \<^verbatim>\<open>T\<close> and content
  \<^verbatim>\<open>c\<close> without caller tags, and the state after that request.\<close>

definition runbook :: document where
  "runbook =
     \<lparr>doc_id = 1, title = ascii ''T'', content = ascii ''c'', summary = ascii ''c'',
      tags = [ascii ''ai''], embedding = [], currentVersion = 1, createdBy = 7,
      lastUpdatedBy = Some 7,
      versions = [\<lparr>versionNumber = 1, v_title = ascii ''T'', v_content = ascii ''c'',
                   v_summary = ascii ''c'', v_tags = [ascii ''ai''], editedBy = 7,
                   v_changes = all_changes, v_diff = no_diff\<rparr>],
      isDeleted = False, updatedAt = 5\<rparr>"

definition created_activity :: activity where
  "created_activity =
     \<lparr>action = Created, a_document = 1, documentTitle = ascii ''T'', a_versionNumber = 1,
      a_user = 7, a_changes = no_changes, previousVersion = None, newVersion = None,
      createdAt = 5\<rparr>"

definition one_document :: state where
  "one_document = \<lparr>documents = [runbook], activities = [created_activity], console = []\<rparr>"

text \<open>A document stored by the earlier model, whose schema had no version hook: its
  ledger is empty.\<close>

definition legacy :: document where
  "legacy = runbook\<lparr>tags := [ascii ''a'', ascii ''b''], versions := []\<rparr>"

definition legacy_state :: state where
  "legacy_state = \<lparr>documents = [legacy], activities = [], console = []\<rparr>"

text \<open>A stored document at version 2 whose ledger holds both versions: version 1 with
  title \<^verbatim>\<open>B\<close>, version 2 with the current title \<^verbatim>\<open>A\<close>.\<close>

definition two_versions :: document where
  "two_versions =
     runbook\<lparr>title := ascii ''A'', currentVersion := 2,
       versions := [\<lparr>versionNumber = 1, v_title = ascii ''B'', v_content = ascii ''c'',
                     v_summary = ascii ''c'', v_tags = [ascii ''ai''], editedBy = 7,
                     v_changes = all_changes, v_diff = no_diff\<rparr>,
                    \<lparr>versionNumber = 2, v_title = ascii ''A'', v_content = ascii ''c'',
                     v_summary = ascii ''c'', v_tags = [ascii ''ai''], editedBy = 7,
                     v_changes = all_changes, v_diff = no_diff\<rparr>]\<rparr>"

definition two_versions_state :: state where
  "two_versions_state = \<lparr>documents = [two_versions], activities = [], console = []\<rparr>"

text \<open>Eleven successive updates of the content of document \<open>i\<close>.\<close>

fun successive_updates :: "env \<Rightarrow> user \<Rightarrow> nat \<Rightarrow> jsstring list \<Rightarrow> state \<Rightarrow> state" where
  "successive_updates e u i [] s = s"
| "successive_updates e u i (c # cs) s =
     successive_updates e u i cs (snd (updateDocument e u i None (Some c) None s))"

definition eleven_contents :: "jsstring list" where
  "eleven_contents =
     map (\<lambda>k. [0x76, k]) [0x61, 0x62, 0x63, 0x64, 0x65, 0x66, 0x67, 0x68, 0x69, 0x6A, 0x6B]"


definition later :: env where
  "later = env0\<lparr>now := 9\<rparr>"

definition failing_audit :: env where
  "failing_audit = env0\<lparr>activity_fails := True\<rparr>"

definition failing_method_save :: env where
  "failing_method_save = env0\<lparr>method_save_fails := True\<rparr>"

definition failing_commit :: env where
  "failing_commit = env0\<lparr>commit_fails := True\<rparr>"

definition failing_response :: env where
  "failing_response = env0\<lparr>respond_fails := True\<rparr>"

text \<open>What \<open>createDocument env0 alice\<close> stores for the same title and content with the
  caller's tag \<^verbatim>\<open>mine\<close>.\<close>

definition tagged :: document where
  "tagged = runbook\<lparr>tags := [ascii ''mine''],
                     versions := [hd (versions runbook)\<lparr>v_tags := [ascii ''mine'']\<rparr>]\<rparr>"

section \<open>Properties\<close>

lemmas example_defs =
  flaky_def offline_def env0_def alice_def empty_state_def runbook_def created_activity_def
  one_document_def legacy_def legacy_state_def failing_audit_def failing_method_save_def
  two_versions_def two_versions_state_def later_def failing_commit_def tagged_def
  failing_response_def
  ascii_def all_changes_def no_changes_def no_diff_def

lemmas gemini_defs =
  summarizeText_def truncated_def generateTags_def naive_def embedText_def isReady_def newline_def

lemmas model_defs =
  doc_save_def validate_def pre_save_def initial_version_def findById_def createVersion_def
  softDelete_def some_change_def slice_last_def js_trim_def is_js_space_def

lemmas controller_defs =
  createDocument_def new_document_def updateDocument_def track_changes_def apply_patch_def
  recompute_ai_def version_and_log_def deleteDocument_def restoreVersion_def find_version_def
  restore_fields_def forceTags_def logActivity_def caught_def commitTransaction_def
  rejected_def respond_def
  canModify_def snapshot_of_def snapshot_of_version_def array_from_set_def

subsection \<open>Helper facts\<close>


lemma documents_logActivity: "documents (logActivity e act d u vn ch p n s) = documents s"
  by (simp add: logActivity_def)

lemma caught_simps:
  "fst (caught l f s) = Inl (Server_error f)"
  "documents (snd (caught l f s)) = documents s"
  "activities (snd (caught l f s)) = activities s"
  by (simp_all add: caught_def)

lemma rejected_simps:
  "fst (rejected st s) = Inl (Rejected st)"
  "snd (rejected st s) = s"
  by (simp_all add: rejected_def)

lemma respond_simps:
  "fst (respond e p s) = (if respond_fails e then Inl (Rejected After_commit) else Inr p)"
  "snd (respond e p s) = s"
  by (simp_all add: respond_def rejected_def)

lemma commit_cases:
  "commitTransaction e tx s =
     (if commit_fails e then Inl MongoError else Inr (s\<lparr>documents := tx\<rparr>))"
  by (simp add: commitTransaction_def)

lemma findById_Some: "findById i docs = Some d \<Longrightarrow> d \<in> set docs \<and> doc_id d = i"
  by (induction docs) (auto simp: findById_def split: if_splits)


lemma replace_doc_map:
  "findById (doc_id d) docs = Some stored \<Longrightarrow> f d = f stored \<Longrightarrow>
   map f (replace_doc d docs) = map f docs"
  by (induction docs) (auto simp: findById_def split: if_splits)

lemma replace_doc_facts:
  "length (replace_doc d docs) = length docs"
  "findById (doc_id d) docs = Some x \<Longrightarrow> d \<in> set (replace_doc d docs)"
  by (induction docs) (auto simp: findById_def split: if_splits)



lemma doc_save_existing:
  assumes "doc_save fails t False d docs = Inr (d', docs')"
  shows "(d' = d \<and> docs' = docs \<and> findById (doc_id d) docs = Some d)
       \<or> (d' = d\<lparr>updatedAt := t\<rparr> \<and> docs' = replace_doc d' docs
          \<and> (\<exists>x. findById (doc_id d) docs = Some x))"
  using assms
  by (auto simp: doc_save_def pre_save_def Let_def split: if_splits option.splits)

lemma apply_patch_keeps:
  "doc_id (apply_patch t c tg d) = doc_id d"
  "versions (apply_patch t c tg d) = versions d"
  "currentVersion (apply_patch t c tg d) = currentVersion d"
  by (simp_all add: apply_patch_def Let_def split: option.splits)


lemma version_and_log_documents:
  "version_and_log e u ch prev d tx s = Inr (d1, tx1, s1) \<Longrightarrow> documents s1 = documents s"
  by (auto simp: version_and_log_def documents_logActivity split: if_splits sum.splits prod.splits)

lemma slice_last_short: "length xs \<le> n \<Longrightarrow> slice_last n xs = xs"
  by (simp add: slice_last_def)

lemma slice_last_evicts_oldest:
  "length vs = 10 \<Longrightarrow> slice_last 10 (vs @ [v]) = tl vs @ [v]"
  by (cases vs) (simp_all add: slice_last_def)

subsection \<open>The fallback summary\<close>

text \<open>
  C10. When the service is unavailable (\<open>isReady\<close> is false) or its call fails,
  \<open>summarizeText\<close> answers the text itself when it has at most 220 code units, and
  otherwise its first 200 code units followed by the single ellipsis character; texts
  of 201 to 220 code units come back whole.
\<close>

theorem summarizeText_fallback:
  assumes "\<not> isReady g \<or> summary_reply g txt = None"
  shows "summarizeText g txt = (if length txt \<le> 220 then txt else take 200 txt @ [ellipsis])
       \<and> (201 \<le> length txt \<and> length txt \<le> 220 \<longrightarrow> summarizeText g txt = txt)"
  using assms by (auto simp: summarizeText_def truncated_def)

theorem summarizeText_fallback_witness:
  "\<not> isReady offline
   \<and> summarizeText offline (replicate 221 0x61) = replicate 200 0x61 @ [ellipsis]
   \<and> summarizeText offline (replicate 210 0x61) = replicate 210 0x61
   \<and> summary_reply flaky (replicate 221 0x61) = None
   \<and> summarizeText flaky (replicate 221 0x61) = replicate 200 0x61 @ [ellipsis]"
  using summarizeText_fallback[of offline "replicate 221 0x61"]
        summarizeText_fallback[of offline "replicate 210 0x61"]
        summarizeText_fallback[of flaky "replicate 221 0x61"]
  by (simp add: offline_def flaky_def isReady_def)

subsection \<open>A failed audit write does not fail the mutation\<close>

lemma createVersion_flag:
  "createVersion (e\<lparr>activity_fails := b\<rparr>) u ch d tx = createVersion e u ch d tx"
  by (simp add: createVersion_def Let_def)

lemma new_document_flag: "new_document (e\<lparr>activity_fails := b\<rparr>) = new_document e"
  by (simp add: new_document_def fun_eq_iff)

lemma softDelete_flag: "softDelete (e\<lparr>activity_fails := b\<rparr>) d tx = softDelete e d tx"
  by (simp add: softDelete_def)

lemma recompute_flag:
  "recompute_ai (e\<lparr>activity_fails := b\<rparr>) tg ch d = recompute_ai e tg ch d"
  by (simp add: recompute_ai_def)

lemma createDocument_flag:
  "fst (createDocument (e\<lparr>activity_fails := b\<rparr>) u t c tg s) = fst (createDocument e u t c tg s)
   \<and> documents (snd (createDocument (e\<lparr>activity_fails := b\<rparr>) u t c tg s))
     = documents (snd (createDocument e u t c tg s))"
  by (simp add: createDocument_def Let_def caught_simps rejected_simps respond_simps
      documents_logActivity commit_cases new_document_flag
      split: option.split sum.split prod.split)

lemma deleteDocument_flag:
  "fst (deleteDocument (e\<lparr>activity_fails := b\<rparr>) u i s) = fst (deleteDocument e u i s)
   \<and> documents (snd (deleteDocument (e\<lparr>activity_fails := b\<rparr>) u i s))
     = documents (snd (deleteDocument e u i s))"
  by (simp add: deleteDocument_def Let_def caught_simps rejected_simps documents_logActivity
      commit_cases softDelete_flag split: option.split sum.split prod.split)

lemma restoreVersion_flag:
  "fst (restoreVersion (e\<lparr>activity_fails := b\<rparr>) u i vn s) = fst (restoreVersion e u i vn s)
   \<and> documents (snd (restoreVersion (e\<lparr>activity_fails := b\<rparr>) u i vn s))
     = documents (snd (restoreVersion e u i vn s))"
  by (simp add: restoreVersion_def Let_def caught_simps rejected_simps respond_simps
      documents_logActivity commit_cases createVersion_flag
      split: option.split sum.split prod.split)

lemma updateDocument_flag:
  "fst (updateDocument (e\<lparr>activity_fails := b\<rparr>) u i t c tg s) = fst (updateDocument e u i t c tg s)
   \<and> documents (snd (updateDocument (e\<lparr>activity_fails := b\<rparr>) u i t c tg s))
     = documents (snd (updateDocument e u i t c tg s))"
  apply (simp add: updateDocument_def Let_def caught_simps rejected_simps respond_simps
      documents_logActivity commit_cases recompute_flag
      split: option.split sum.split prod.split)
  apply (auto simp: version_and_log_def createVersion_flag documents_logActivity caught_simps
      split: if_splits sum.splits prod.splits)
  done

text \<open>
  C8. A failure while writing the activity record never fails or rolls back the
  enclosing mutation. \<open>logActivity\<close> with a failing write only prints to the console and
  returns; and for create, update, delete and restore the answer of the request and the
  document collection it leaves are the same whether the audit write fails or succeeds.
\<close>

theorem audit_failure_never_fails_mutation:
  "logActivity (e\<lparr>activity_fails := True\<rparr>) act d u vn ch p n s
     = s\<lparr>console := console s @ [Error_logging_activity]\<rparr>
   \<and> fst (createDocument (e\<lparr>activity_fails := True\<rparr>) u t c tg s)
     = fst (createDocument (e\<lparr>activity_fails := False\<rparr>) u t c tg s)
   \<and> documents (snd (createDocument (e\<lparr>activity_fails := True\<rparr>) u t c tg s))
     = documents (snd (createDocument (e\<lparr>activity_fails := False\<rparr>) u t c tg s))
   \<and> fst (updateDocument (e\<lparr>activity_fails := True\<rparr>) u i t c tg s)
     = fst (updateDocument (e\<lparr>activity_fails := False\<rparr>) u i t c tg s)
   \<and> documents (snd (updateDocument (e\<lparr>activity_fails := True\<rparr>) u i t c tg s))
     = documents (snd (updateDocument (e\<lparr>activity_fails := False\<rparr>) u i t c tg s))
   \<and> fst (deleteDocument (e\<lparr>activity_fails := True\<rparr>) u i s)
     = fst (deleteDocument (e\<lparr>activity_fails := False\<rparr>) u i s)
   \<and> documents (snd (deleteDocument (e\<lparr>activity_fails := True\<rparr>) u i s))
     = documents (snd (deleteDocument (e\<lparr>activity_fails := False\<rparr>) u i s))
   \<and> fst (restoreVersion (e\<lparr>activity_fails := True\<rparr>) u i vn s)
     = fst (restoreVersion (e\<lparr>activity_fails := False\<rparr>) u i vn s)
   \<and> documents (snd (restoreVersion (e\<lparr>activity_fails := True\<rparr>) u i vn s))
     = documents (snd (restoreVersion (e\<lparr>activity_fails := False\<rparr>) u i vn s))"
  by (simp add: createDocument_flag updateDocument_flag deleteDocument_flag restoreVersion_flag
      logActivity_def)

theorem audit_failure_never_fails_mutation_witness:
  "fst (createDocument (env0\<lparr>activity_fails := True\<rparr>) alice (Some (ascii ''T''))
          (Some (ascii ''c'')) None empty_state) = Inr runbook
   \<and> documents (snd (createDocument (env0\<lparr>activity_fails := True\<rparr>) alice (Some (ascii ''T''))
          (Some (ascii ''c'')) None empty_state)) = [runbook]
   \<and> fst (deleteDocument (env0\<lparr>activity_fails := True\<rparr>) alice 1 one_document) = Inr ()
   \<and> map isDeleted (documents (snd (deleteDocument (env0\<lparr>activity_fails := True\<rparr>) alice 1
          one_document))) = [True]"
proof -
  have ok:
    "fst (createDocument (env0\<lparr>activity_fails := False\<rparr>) alice (Some (ascii ''T''))
          (Some (ascii ''c'')) None empty_state) = Inr runbook"
    "documents (snd (createDocument (env0\<lparr>activity_fails := False\<rparr>) alice (Some (ascii ''T''))
          (Some (ascii ''c'')) None empty_state)) = [runbook]"
    "fst (deleteDocument (env0\<lparr>activity_fails := False\<rparr>) alice 1 one_document) = Inr ()"
    "map isDeleted (documents (snd (deleteDocument (env0\<lparr>activity_fails := False\<rparr>) alice 1
          one_document))) = [True]"
    by (simp_all add: example_defs gemini_defs model_defs controller_defs Let_def)
  from audit_failure_never_fails_mutation
    [where e = env0 and u = alice and s = empty_state and t = "Some (ascii ''T'')"
       and c = "Some (ascii ''c'')" and tg = None]
    audit_failure_never_fails_mutation
    [where e = env0 and u = alice and s = one_document and i = 1]
    ok
  show ?thesis
    by simp
qed

subsection \<open>A failure before the commit rolls the documents back\<close>

text \<open>
  A request that ends with an early answer, with the 500 of the \<^verbatim>\<open>catch\<close> block, or with
  the commit itself failing has failed before anything was committed. The one other way
  to fail, \<open>Rejected After_commit\<close>, is a failure of the steps after a successful commit.
\<close>

lemma createDocument_rollback:
  "isl (fst (createDocument e u t c tg s)) \<Longrightarrow>
   fst (createDocument e u t c tg s) \<noteq> Inl (Rejected After_commit) \<Longrightarrow>
   documents (snd (createDocument e u t c tg s)) = documents s"
  by (auto simp: createDocument_def Let_def caught_simps rejected_simps respond_simps
      documents_logActivity commit_cases
      split: option.splits sum.splits prod.splits if_splits)

lemma updateDocument_rollback:
  "isl (fst (updateDocument e u i t c tg s)) \<Longrightarrow>
   fst (updateDocument e u i t c tg s) \<noteq> Inl (Rejected After_commit) \<Longrightarrow>
   documents (snd (updateDocument e u i t c tg s)) = documents s"
  by (auto simp: updateDocument_def Let_def caught_simps rejected_simps respond_simps
      documents_logActivity commit_cases
      split: option.splits sum.splits prod.splits if_splits dest: version_and_log_documents)

lemma deleteDocument_rollback:
  "isl (fst (deleteDocument e u i s)) \<Longrightarrow>
   documents (snd (deleteDocument e u i s)) = documents s"
  by (auto simp: deleteDocument_def Let_def caught_simps rejected_simps documents_logActivity
      commit_cases split: option.splits sum.splits prod.splits if_splits)

lemma restoreVersion_rollback:
  "isl (fst (restoreVersion e u i vn s)) \<Longrightarrow>
   fst (restoreVersion e u i vn s) \<noteq> Inl (Rejected After_commit) \<Longrightarrow>
   documents (snd (restoreVersion e u i vn s)) = documents s"
  by (auto simp: restoreVersion_def Let_def caught_simps rejected_simps respond_simps
      documents_logActivity commit_cases
      split: option.splits sum.splits prod.splits if_splits)












lemma response_failure_example:
  "createDocument failing_response alice (Some (ascii ''T'')) (Some (ascii ''c'')) None
     empty_state = (Inl (Rejected After_commit), one_document)"
  by (simp add: example_defs gemini_defs model_defs controller_defs Let_def)

text \<open>
  C2, as the code has it. When a create, update, delete or restore request fails before
  its commit has succeeded (an early answer, the 500 of the \<^verbatim>\<open>catch\<close> block, or the
  commit itself failing), the document-side writes are rolled back as one unit: the
  document collection (every document's fields and its embedded version ledger) is
  exactly what it was before the request. The activity record is not part of that unit:
  \<open>logActivity\<close> writes it without the session, so it is not rolled back.
\<close>

theorem failure_before_commit_rolls_back_documents:
  "(isl (fst (createDocument e u t c tg s))
      \<and> fst (createDocument e u t c tg s) \<noteq> Inl (Rejected After_commit) \<longrightarrow>
      documents (snd (createDocument e u t c tg s)) = documents s)
   \<and> (isl (fst (updateDocument e u i t c tg s))
      \<and> fst (updateDocument e u i t c tg s) \<noteq> Inl (Rejected After_commit) \<longrightarrow>
      documents (snd (updateDocument e u i t c tg s)) = documents s)
   \<and> (isl (fst (deleteDocument e u i s))
      \<and> fst (deleteDocument e u i s) \<noteq> Inl (Rejected After_commit) \<longrightarrow>
      documents (snd (deleteDocument e u i s)) = documents s)
   \<and> (isl (fst (restoreVersion e u i vn s))
      \<and> fst (restoreVersion e u i vn s) \<noteq> Inl (Rejected After_commit) \<longrightarrow>
      documents (snd (restoreVersion e u i vn s)) = documents s)"
  by (simp add: createDocument_rollback updateDocument_rollback deleteDocument_rollback
      restoreVersion_rollback)

theorem failure_before_commit_rolls_back_documents_witness:
  "fst (createDocument failing_commit alice (Some (ascii ''T'')) (Some (ascii ''c'')) None
          empty_state) = Inl (Rejected At_commit)
   \<and> documents (snd (createDocument failing_commit alice (Some (ascii ''T''))
               (Some (ascii ''c'')) None empty_state)) = []
   \<and> fst (updateDocument env0 alice 1 None (Some (ascii ''va'')) None one_document)
       = Inl (Server_error TypeError)
   \<and> documents (snd (updateDocument env0 alice 1 None (Some (ascii ''va'')) None one_document))
       = [runbook]
   \<and> fst (deleteDocument failing_method_save alice 1 one_document)
       = Inl (Server_error MongoError)
   \<and> documents (snd (deleteDocument failing_method_save alice 1 one_document)) = [runbook]
   \<and> fst (restoreVersion env0 alice 1 (Some 1) one_document) = Inl (Server_error TypeError)
   \<and> documents (snd (restoreVersion env0 alice 1 (Some 1) one_document)) = [runbook]"
proof -
  have failed:
    "fst (createDocument failing_commit alice (Some (ascii ''T'')) (Some (ascii ''c'')) None
          empty_state) = Inl (Rejected At_commit)"
    "fst (updateDocument env0 alice 1 None (Some (ascii ''va'')) None one_document)
       = Inl (Server_error TypeError)"
    "fst (deleteDocument failing_method_save alice 1 one_document)
       = Inl (Server_error MongoError)"
    "fst (restoreVersion env0 alice 1 (Some 1) one_document) = Inl (Server_error TypeError)"
    by (simp_all add: example_defs gemini_defs model_defs controller_defs Let_def)
  from failed(1) failure_before_commit_rolls_back_documents
    [where e = failing_commit and u = alice and s = empty_state and t = "Some (ascii ''T'')"
       and c = "Some (ascii ''c'')" and tg = None]
  have 1: "documents (snd (createDocument failing_commit alice (Some (ascii ''T''))
               (Some (ascii ''c'')) None empty_state)) = documents empty_state"
    by simp
  from failed(2) failure_before_commit_rolls_back_documents
    [where e = env0 and u = alice and s = one_document and i = 1 and t = None
       and c = "Some (ascii ''va'')" and tg = None]
  have 2: "documents (snd (updateDocument env0 alice 1 None (Some (ascii ''va'')) None
               one_document)) = documents one_document"
    by simp
  from failed(3) failure_before_commit_rolls_back_documents
    [where e = failing_method_save and u = alice and i = 1 and s = one_document]
  have 3: "documents (snd (deleteDocument failing_method_save alice 1 one_document))
        = documents one_document"
    by simp
  from failed(4) failure_before_commit_rolls_back_documents
    [where e = env0 and u = alice and i = 1 and s = one_document and vn = "Some 1"]
  have 4: "documents (snd (restoreVersion env0 alice 1 (Some 1) one_document))
        = documents one_document"
    by simp
  from failed 1 2 3 4 show ?thesis
    by (simp add: one_document_def empty_state_def)
qed

text \<open>
  C2 as stated fails: the save inside \<open>softDelete\<close> fails before any commit, the request
  answers 500 and
  the document is untouched, but the \<^verbatim>\<open>deleted\<close> activity written before it stays.
\<close>

theorem activity_not_rolled_back_counterexample:
  "fst (deleteDocument failing_method_save alice 1 one_document) = Inl (Server_error MongoError)
   \<and> documents (snd (deleteDocument failing_method_save alice 1 one_document))
       = documents one_document
   \<and> map action (activities (snd (deleteDocument failing_method_save alice 1 one_document)))
       = [Created, Deleted]
   \<and> activities (snd (deleteDocument failing_method_save alice 1 one_document))
       \<noteq> activities one_document"
  by (simp add: example_defs model_defs controller_defs Let_def)

subsection \<open>Creating a document\<close>






text \<open>What the earlier controller's expression computes: the merged, deduplicated list,
  cut at 10.\<close>

lemma merged_tags_facts:
  "distinct (merged_tags tg ai)"
  "length (merged_tags tg ai) \<le> 10"
  "set (merged_tags tg ai) \<subseteq> set (case tg of Some ts \<Rightarrow> ts | None \<Rightarrow> []) \<union> set ai"
  by (auto simp: merged_tags_def array_from_set_def dest: in_set_takeD)




subsection \<open>The cap on tags\<close>

lemma capped_updatedAt [simp]: "capped (d\<lparr>updatedAt := t\<rparr>) = capped d"
  by (simp add: capped_def)












lemma forceTags_success:
  assumes "forceTags e u i s = (Inr ts, s')"
  shows "length ts \<le> 10"
  using assms
  by (auto simp: forceTags_def Let_def split: option.splits sum.splits prod.splits if_splits
      dest!: doc_save_existing)





subsection \<open>Updates that change nothing\<close>

lemma track_changes_same:
  assumes "t = None \<or> t = Some (title d)" "c = None \<or> c = Some (content d)"
    "tg = None \<or> tg = Some (tags d)"
  shows "track_changes t c tg d = no_changes"
  using assms by (auto simp: track_changes_def no_changes_def)

lemma noop_update:
  assumes f: "findById i (documents s) = Some d"
    and same: "t = None \<or> t = Some (title d)" "c = None \<or> c = Some (content d)"
      "tg = None \<or> tg = Some (tags d)"
  shows "activities (snd (updateDocument e u i t c tg s)) = activities s
       \<and> map versions (documents (snd (updateDocument e u i t c tg s))) = map versions (documents s)
       \<and> map currentVersion (documents (snd (updateDocument e u i t c tg s)))
           = map currentVersion (documents s)"
proof -
  let ?p = "(apply_patch t c tg d)\<lparr>lastUpdatedBy := Some (user_id u)\<rparr>"
  have id: "doc_id ?p = doc_id d" "versions ?p = versions d" "currentVersion ?p = currentVersion d"
    by (simp_all add: apply_patch_keeps)
  from findById_Some[OF f] have i: "doc_id d = i" by simp
  have saved: "map versions docs' = map versions (documents s)
             \<and> map currentVersion docs' = map currentVersion (documents s)"
    if "doc_save (save_fails e) (now e) False ?p (documents s) = Inr (d', docs')" for d' docs'
  proof -
    from doc_save_existing[OF that] show ?thesis
    proof (elim disjE conjE exE)
      assume "docs' = documents s"
      then show ?thesis by simp
    next
      assume a: "d' = ?p\<lparr>updatedAt := now e\<rparr>" "docs' = replace_doc d' (documents s)"
      then have "findById (doc_id d') (documents s) = Some d" "versions d' = versions d"
        "currentVersion d' = currentVersion d"
        using f i id by simp_all
      with a show ?thesis
        using replace_doc_map[of d' "documents s" d versions]
          replace_doc_map[of d' "documents s" d currentVersion] by simp
    qed
  qed
  have ch: "track_changes t c tg d = no_changes"
    using same by (rule track_changes_same)
  show ?thesis
    using saved
    by (auto simp: updateDocument_def f ch recompute_ai_def version_and_log_def no_changes_def
        some_change_def caught_def rejected_def respond_def commit_cases
        split: sum.splits prod.splits)
qed

text \<open>
  C4, as the code has it. An update whose patch values are identical to the current
  ones (title and content as strings, tags as the same list in the same order, which is
  what comparing the \<^verbatim>\<open>JSON.stringify\<close> texts of two string arrays decides) appends no
  ledger entry, bumps no counter and writes no activity record.
\<close>

theorem noop_update_appends_nothing:
  assumes "findById i (documents s) = Some d"
    and "t = None \<or> t = Some (title d)"
    and "c = None \<or> c = Some (content d)"
    and "tg = None \<or> tg = Some (tags d)"
  shows "activities (snd (updateDocument e u i t c tg s)) = activities s
       \<and> map versions (documents (snd (updateDocument e u i t c tg s)))
           = map versions (documents s)
       \<and> map currentVersion (documents (snd (updateDocument e u i t c tg s)))
           = map currentVersion (documents s)"
  using assms by (rule noop_update)

theorem noop_update_appends_nothing_witness:
  "findById 1 (documents one_document) = Some runbook
   \<and> canModify alice runbook
   \<and> fst (updateDocument env0 alice 1 (Some (title runbook)) (Some (content runbook))
            (Some (tags runbook)) one_document) = Inr runbook
   \<and> activities (snd (updateDocument env0 alice 1 (Some (title runbook)) (Some (content runbook))
            (Some (tags runbook)) one_document)) = [created_activity]
   \<and> map versions (documents (snd (updateDocument env0 alice 1 (Some (title runbook))
            (Some (content runbook)) (Some (tags runbook)) one_document))) = [versions runbook]"
proof -
  have h: "findById 1 (documents one_document) = Some runbook"
    by (simp add: example_defs findById_def)
  have r: "canModify alice runbook"
    "fst (updateDocument env0 alice 1 (Some (title runbook)) (Some (content runbook))
            (Some (tags runbook)) one_document) = Inr runbook"
    by (simp_all add: example_defs gemini_defs model_defs controller_defs Let_def)
  from noop_update_appends_nothing[OF h, of "Some (title runbook)" "Some (content runbook)"
      "Some (tags runbook)" env0 alice] h r
  show ?thesis by (simp add: one_document_def)
qed

text \<open>
  C4 as stated fails: tags are compared in order. On a stored document with tags
  \<^verbatim>\<open>[a, b]\<close> and an empty ledger, the patch \<^verbatim>\<open>tags: [b, a]\<close> (the same set) appends a
  version and writes an \<^verbatim>\<open>updated\<close> activity.
\<close>

theorem reordered_tags_counterexample:
  "findById 1 (documents legacy_state) = Some legacy
   \<and> canModify alice legacy
   \<and> tags legacy = [ascii ''a'', ascii ''b'']
   \<and> set [ascii ''b'', ascii ''a''] = set (tags legacy)
   \<and> versions legacy = []
   \<and> activities legacy_state = []
   \<and> fst (updateDocument env0 alice 1 None None (Some [ascii ''b'', ascii ''a'']) legacy_state)
       = Inr (legacy\<lparr>tags := [ascii ''b'', ascii ''a''], currentVersion := 2,
                versions := [\<lparr>versionNumber = 2, v_title = ascii ''T'', v_content = ascii ''c'',
                   v_summary = ascii ''c'', v_tags = [ascii ''b'', ascii ''a''], editedBy = 7,
                   v_changes = no_changes\<lparr>ch_tags := True\<rparr>, v_diff = no_diff\<rparr>]\<rparr>)
   \<and> map versionNumber (concat (map versions
         (documents (snd (updateDocument env0 alice 1 None None (Some [ascii ''b'', ascii ''a''])
                            legacy_state))))) = [2]
   \<and> map action (activities (snd (updateDocument env0 alice 1 None None
                            (Some [ascii ''b'', ascii ''a'']) legacy_state))) = [Updated]"
  by (simp add: example_defs gemini_defs model_defs controller_defs Let_def insert_commute)

subsection \<open>createVersion: the bounded ledger and the missing diff object\<close>

text \<open>
  Where \<open>createVersion\<close> returns, it has bumped the counter by one and appended one
  snapshot of the current fields, keeping the last 10 entries: an eleventh entry evicts
  the oldest.
\<close>

lemma createVersion_ledger_bound:
  assumes "createVersion e u ch d docs = Inr (d', docs')"
  shows "length (versions d') \<le> 10
       \<and> currentVersion d' = currentVersion d + 1
       \<and> (\<exists>v. versionNumber v = currentVersion d + 1 \<and> snapshot_of_version v = snapshot_of d
              \<and> v_changes v = ch \<and> v_diff v = no_diff
              \<and> versions d' = slice_last 10 (versions d @ [v]))"
proof -
  let ?v = "\<lparr>versionNumber = currentVersion d + 1, v_title = title d, v_content = content d,
             v_summary = summary d, v_tags = tags d, editedBy = user_id u,
             v_changes = ch, v_diff = no_diff\<rparr>"
  let ?d2 = "d\<lparr>currentVersion := currentVersion d + 1, lastUpdatedBy := Some (user_id u),
               versions := slice_last 10 (versions d @ [?v])\<rparr>"
  from assms have sv: "doc_save (method_save_fails e) (now e) False ?d2 docs = Inr (d', docs')"
    by (auto simp: createVersion_def Let_def slice_last_short split: if_splits)
  from doc_save_existing[OF sv] have "versions d' = slice_last 10 (versions d @ [?v])"
    "currentVersion d' = currentVersion d + 1"
    by auto
  moreover have "length (slice_last 10 (versions d @ [?v])) \<le> 10"
    by (simp add: slice_last_def)
  moreover have "snapshot_of_version ?v = snapshot_of d"
    by (simp add: snapshot_of_version_def snapshot_of_def)
  ultimately show ?thesis
    by (intro conjI exI[of _ ?v]) simp_all
qed

lemma find_version_nonempty: "find_version vn vs = Some v \<Longrightarrow> vs \<noteq> []"
  by (auto simp: find_version_def)

lemma createVersion_throws:
  "versions d \<noteq> [] \<Longrightarrow> some_change ch \<Longrightarrow> createVersion e u ch d docs = Inl TypeError"
  by (simp add: createVersion_def Let_def)

lemma recompute_ai_keeps:
  assumes "recompute_ai e tg ch d = Inr (ch', d')"
  shows "versions d' = versions d" and "ch_content ch \<Longrightarrow> ch_content ch'"
  using assms
  by (auto simp: recompute_ai_def Let_def split: if_splits sum.splits option.splits)

lemma content_update_throws:
  assumes f: "findById i (documents s) = Some d" and m: "canModify u d"
    and v: "versions d \<noteq> []" and c: "c \<noteq> content d"
  shows "isl (fst (updateDocument e u i t (Some c) tg s))
       \<and> documents (snd (updateDocument e u i t (Some c) tg s)) = documents s
       \<and> activities (snd (updateDocument e u i t (Some c) tg s)) = activities s"
proof -
  let ?ch = "track_changes t (Some c) tg d"
  let ?p = "apply_patch t (Some c) tg d"
  have chc: "ch_content ?ch" using c by (simp add: track_changes_def)
  have vp: "versions ?p = versions d" by (simp add: apply_patch_keeps)
  show ?thesis
  proof (cases "recompute_ai e tg ?ch ?p")
    case (Inl x)
    then show ?thesis by (simp add: updateDocument_def f m caught_def)
  next
    case (Inr r)
    obtain ch' d' where r: "r = (ch', d')" by (cases r)
    from recompute_ai_keeps[OF Inr[unfolded r]] chc vp v
    have "versions d' \<noteq> []" "some_change ch'" by (simp_all add: some_change_def)
    then have "version_and_log e u ch' (snapshot_of d) d' (documents s) s = Inl TypeError"
      by (simp add: version_and_log_def createVersion_throws)
    with Inr r show ?thesis by (simp add: updateDocument_def f m caught_def)
  qed
qed

text \<open>
  C3, what the code does. On a document whose ledger is not empty (every document that
  \<open>createDocument\<close> stored), an authorised update that changes the content reaches
  \<open>createVersion\<close> with a flag set, which throws: the request answers 500, and neither
  the documents nor the activities change. After eleven such updates the ledger still
  holds version 1 alone and no \<^verbatim>\<open>updated\<close> record exists.
\<close>

theorem content_update_on_versioned_document_throws:
  assumes "findById i (documents s) = Some d" and "canModify u d"
    and "versions d \<noteq> []" and "c \<noteq> content d"
  shows "isl (fst (updateDocument e u i t (Some c) tg s))
       \<and> documents (snd (updateDocument e u i t (Some c) tg s)) = documents s
       \<and> activities (snd (updateDocument e u i t (Some c) tg s)) = activities s"
  using assms by (rule content_update_throws)

lemma successive_updates_throw:
  assumes "findById i (documents s) = Some d" "canModify u d" "versions d \<noteq> []"
    "content d \<notin> set cs"
  shows "documents (successive_updates e u i cs s) = documents s
       \<and> activities (successive_updates e u i cs s) = activities s"
  using assms
proof (induction cs arbitrary: s)
  case Nil
  then show ?case by simp
next
  case (Cons c cs)
  let ?s1 = "snd (updateDocument e u i None (Some c) None s)"
  from Cons.prems have "c \<noteq> content d" by auto
  from content_update_throws[OF Cons.prems(1,2,3) this, of e None None]
  have same: "documents ?s1 = documents s" "activities ?s1 = activities s" by simp_all
  with Cons.prems have "findById i (documents ?s1) = Some d" "content d \<notin> set cs" by simp_all
  from Cons.IH[OF this(1) Cons.prems(2,3) this(2)] same show ?case by simp
qed

theorem content_update_on_versioned_document_throws_witness:
  "createDocument env0 alice (Some (ascii ''T'')) (Some (ascii ''c'')) None empty_state
     = (Inr runbook, one_document)
   \<and> findById 1 (documents one_document) = Some runbook
   \<and> canModify alice runbook
   \<and> versions runbook \<noteq> []
   \<and> ascii ''va'' \<noteq> content runbook
   \<and> documents (snd (updateDocument env0 alice 1 None (Some (ascii ''va'')) None one_document))
       = documents one_document
   \<and> fst (updateDocument env0 alice 1 None (Some (ascii ''va'')) None one_document)
       = Inl (Server_error TypeError)
   \<and> length eleven_contents = 11 \<and> distinct eleven_contents \<and> content runbook \<notin> set eleven_contents
   \<and> map (\<lambda>d. map versionNumber (versions d))
         (documents (successive_updates env0 alice 1 eleven_contents one_document)) = [[1]]
   \<and> filter (\<lambda>a. action a = Updated)
         (activities (successive_updates env0 alice 1 eleven_contents one_document)) = []"
proof -
  have run: "createDocument env0 alice (Some (ascii ''T'')) (Some (ascii ''c'')) None empty_state
     = (Inr runbook, one_document)"
    by (simp add: example_defs gemini_defs model_defs controller_defs Let_def)
  have h: "findById 1 (documents one_document) = Some runbook" "canModify alice runbook"
    "versions runbook \<noteq> []" "ascii ''va'' \<noteq> content runbook"
    by (simp_all add: example_defs findById_def canModify_def)
  have first: "fst (updateDocument env0 alice 1 None (Some (ascii ''va'')) None one_document)
       = Inl (Server_error TypeError)"
    by (simp add: example_defs gemini_defs model_defs controller_defs Let_def)
  have cs: "length eleven_contents = 11" "distinct eleven_contents"
    "content runbook \<notin> set eleven_contents"
    by (simp_all add: eleven_contents_def example_defs)
  from successive_updates_throw[OF h(1,2,3) cs(3), of env0]
  have all: "documents (successive_updates env0 alice 1 eleven_contents one_document)
       = documents one_document"
    "activities (successive_updates env0 alice 1 eleven_contents one_document)
       = activities one_document"
    by simp_all
  from content_update_on_versioned_document_throws[OF h, of env0 None None]
  have "documents (snd (updateDocument env0 alice 1 None (Some (ascii ''va'')) None one_document))
       = documents one_document"
    by simp
  with run first cs all h show ?thesis
    by (simp add: one_document_def runbook_def created_activity_def)
qed

text \<open>\<open>restoreVersion\<close> finds its target in the ledger, so the ledger is not empty when
  it calls \<open>createVersion\<close> with all four flags set: no restore request ever succeeds.\<close>

lemma restoreVersion_fails: "isl (fst (restoreVersion e u i vn s))"
  by (auto simp: restoreVersion_def caught_def createVersion_throws some_change_def all_changes_def
      split: option.splits dest: find_version_nonempty)

lemma restoreVersion_throws:
  assumes "findById i (documents s) = Some d" and "canModify u d"
    and "find_version vn (versions d) = Some v"
  shows "restoreVersion e u i vn s
         = (Inl (Server_error TypeError),
            s\<lparr>console := console s @ [Error_restoring_document_version]\<rparr>)"
proof -
  from assms(3) have "versions d \<noteq> []"
    by (rule find_version_nonempty)
  then have "createVersion e u all_changes d (documents s) = Inl TypeError"
    by (simp add: createVersion_throws some_change_def all_changes_def)
  with assms show ?thesis
    by (simp add: restoreVersion_def caught_def)
qed

text \<open>
  C1, what the code does. For a stored document at version N, an authorised caller and a
  target version T that the ledger retains, \<open>restoreVersion\<close> reaches \<open>createVersion\<close>
  with a ledger that is not empty and all flags set, which throws: the request answers
  500 and nothing is written. The document stays at version N with its ledger and its
  fields, and no activity is recorded; it does not reach version N + 2, gains no ledger
  entry, and does not take the fields of T's snapshot.
\<close>

theorem restore_of_retained_version_throws:
  assumes "findById i (documents s) = Some d" and "canModify u d"
    and "find_version vn (versions d) = Some v"
  shows "fst (restoreVersion e u i vn s) = Inl (Server_error TypeError)
       \<and> documents (snd (restoreVersion e u i vn s)) = documents s
       \<and> activities (snd (restoreVersion e u i vn s)) = activities s"
  using restoreVersion_throws[OF assms] by simp

theorem restore_of_retained_version_throws_witness:
  "findById 1 (documents two_versions_state) = Some two_versions
   \<and> canModify alice two_versions
   \<and> find_version (Some 1) (versions two_versions) = Some (hd (versions two_versions))
   \<and> v_title (hd (versions two_versions)) = ascii ''B''
   \<and> currentVersion two_versions = 2
   \<and> map versionNumber (versions two_versions) = [1, 2]
   \<and> title two_versions = ascii ''A''
   \<and> fst (restoreVersion env0 alice 1 (Some 1) two_versions_state)
       = Inl (Server_error TypeError)
   \<and> documents (snd (restoreVersion env0 alice 1 (Some 1) two_versions_state))
       = [two_versions]
   \<and> activities (snd (restoreVersion env0 alice 1 (Some 1) two_versions_state)) = []
   \<and> currentVersion two_versions \<noteq> 2 + 2
   \<and> length (versions two_versions) \<noteq> 2 + 2
   \<and> title two_versions \<noteq> ascii ''B''"
proof -
  have h: "findById 1 (documents two_versions_state) = Some two_versions"
    "canModify alice two_versions"
    "find_version (Some 1) (versions two_versions) = Some (hd (versions two_versions))"
    by (simp_all add: example_defs findById_def canModify_def find_version_def)
  have facts: "v_title (hd (versions two_versions)) = ascii ''B''"
    "currentVersion two_versions = 2"
    "map versionNumber (versions two_versions) = [1, 2]"
    "title two_versions = ascii ''A''"
    "ascii ''A'' \<noteq> ascii ''B''"
    "length (versions two_versions) = 2"
    by (simp_all add: example_defs)
  have st: "documents two_versions_state = [two_versions]" "activities two_versions_state = []"
    by (simp_all add: two_versions_state_def)
  from restore_of_retained_version_throws[OF h, of env0] h facts st show ?thesis
    by simp
qed

subsection \<open>Soft delete and the listing\<close>

lemma getDocuments_default:
  "getDocuments e u default_query s
     = Inr (take 20 (sort_key (\<lambda>d. - int (updatedAt d)) (documents s)))"
  by (simp add: getDocuments_def default_query_def matches_def truthy_def)

lemma deleteDocument_success:
  assumes "deleteDocument e u i s = (Inr (), s')"
  shows "\<exists>doc d1. findById i (documents s) = Some doc
           \<and> softDelete e doc (documents s) = Inr (d1, documents s')
           \<and> activities s' = activities (logActivity e Deleted doc u None no_changes None None s)"
  using assms
  by (auto simp: deleteDocument_def Let_def caught_def rejected_def commit_cases
      split: option.splits sum.splits prod.splits if_splits)

text \<open>
  C7, what the code does. After a successful \<open>deleteDocument\<close> the stored record is
  flagged \<open>isDeleted\<close>, keeps its ledger, and the earlier activities are all still there;
  but the default listing (no filter, first page of 20, here with at most 20 documents
  stored) still returns the deleted document: \<open>getDocuments\<close> never filters on
  \<open>isDeleted\<close>, and \<open>findActive\<close>, which would leave it out, is not used.
\<close>

theorem soft_deleted_document_still_listed:
  assumes "deleteDocument e u i s = (Inr (), s')" and "length (documents s) \<le> 20"
  shows "\<exists>ds d d0. getDocuments e' u' default_query s' = Inr ds
           \<and> d \<in> set ds \<and> doc_id d = i \<and> isDeleted d
           \<and> d \<notin> set (findActive (documents s'))
           \<and> findById i (documents s) = Some d0 \<and> versions d = versions d0
           \<and> take (length (activities s)) (activities s') = activities s"
proof -
  from deleteDocument_success[OF assms(1)] obtain doc d1 where
    f: "findById i (documents s) = Some doc"
    and sd: "softDelete e doc (documents s) = Inr (d1, documents s')"
    and acts: "activities s' = activities (logActivity e Deleted doc u None no_changes None None s)"
    by blast
  from findById_Some[OF f] have id: "doc_id doc = i" and mem: "doc \<in> set (documents s)"
    by simp_all
  from sd have sv: "doc_save (method_save_fails e) (now e) False (doc\<lparr>isDeleted := True\<rparr>)
      (documents s) = Inr (d1, documents s')"
    by (simp add: softDelete_def)
  have d1: "isDeleted d1 \<and> doc_id d1 = i \<and> versions d1 = versions doc
      \<and> d1 \<in> set (documents s') \<and> length (documents s') = length (documents s)"
    using doc_save_existing[OF sv]
  proof
    assume a: "d1 = doc\<lparr>isDeleted := True\<rparr> \<and> documents s' = documents s
        \<and> findById (doc_id (doc\<lparr>isDeleted := True\<rparr>)) (documents s) = Some (doc\<lparr>isDeleted := True\<rparr>)"
    then have "d1 \<in> set (documents s)" using findById_Some by metis
    with a id show ?thesis by simp
  next
    assume a: "d1 = doc\<lparr>isDeleted := True\<rparr>\<lparr>updatedAt := now e\<rparr>
        \<and> documents s' = replace_doc d1 (documents s)
        \<and> (\<exists>x. findById (doc_id (doc\<lparr>isDeleted := True\<rparr>)) (documents s) = Some x)"
    then have "findById (doc_id d1) (documents s) = Some doc" using f id by simp
    from replace_doc_facts(2)[OF this] a id show ?thesis
      by (simp add: replace_doc_facts(1))
  qed
  let ?ds = "take 20 (sort_key (\<lambda>d. - int (updatedAt d)) (documents s'))"
  have "set ?ds = set (documents s')"
    using d1 assms(2) by simp
  with d1 have "d1 \<in> set ?ds" by simp
  moreover have "d1 \<notin> set (findActive (documents s'))"
    using d1 by (simp add: findActive_def)
  moreover have "take (length (activities s)) (activities s') = activities s"
    by (simp add: acts logActivity_def)
  ultimately show ?thesis
    using d1 f getDocuments_default[of e' u' s'] by blast
qed

theorem soft_deleted_document_still_listed_witness:
  "deleteDocument later alice 1 one_document
     = (Inr (), \<lparr>documents = [runbook\<lparr>isDeleted := True, updatedAt := 9\<rparr>],
                 activities = [created_activity,
                               created_activity\<lparr>action := Deleted, createdAt := 9\<rparr>],
                 console = []\<rparr>)
   \<and> length (documents one_document) \<le> 20
   \<and> getDocuments later alice default_query (snd (deleteDocument later alice 1 one_document))
       = Inr [runbook\<lparr>isDeleted := True, updatedAt := 9\<rparr>]
   \<and> getDocumentById 1 (snd (deleteDocument later alice 1 one_document))
       = Inr (runbook\<lparr>isDeleted := True, updatedAt := 9\<rparr>)
   \<and> findActive (documents (snd (deleteDocument later alice 1 one_document))) = []
   \<and> fst (activityFeed 10 0 (snd (deleteDocument later alice 1 one_document)))
       = [created_activity\<lparr>action := Deleted, createdAt := 9\<rparr>, created_activity]"
proof -
  have run: "deleteDocument later alice 1 one_document
     = (Inr (), \<lparr>documents = [runbook\<lparr>isDeleted := True, updatedAt := 9\<rparr>],
                 activities = [created_activity,
                               created_activity\<lparr>action := Deleted, createdAt := 9\<rparr>],
                 console = []\<rparr>)"
    by (simp add: example_defs model_defs controller_defs Let_def)
  have len: "length (documents one_document) \<le> 20"
    by (simp add: one_document_def)
  from soft_deleted_document_still_listed[OF run len, of later alice]
  have "\<exists>ds. getDocuments later alice default_query
            \<lparr>documents = [runbook\<lparr>isDeleted := True, updatedAt := 9\<rparr>],
             activities = [created_activity,
                           created_activity\<lparr>action := Deleted, createdAt := 9\<rparr>],
             console = []\<rparr> = Inr ds"
    by blast
  then show ?thesis
    unfolding run
    by (simp add: getDocuments_default getDocumentById_def findById_def findActive_def
        activityFeed_def example_defs)
qed

end
